theory Spec2Isabelle
  imports Main "HOL-Library.Sublist"
begin

section \<open>Data model\<close>

text \<open>
  A Python \<open>str\<close> is a sequence of Unicode code points. The user-visible texts of the
  program are Chinese, so a string is a list of code points; \<open>ascii\<close> embeds an ASCII
  literal.
\<close>

type_synonym pystr = "nat list"

definition ascii :: "string \<Rightarrow> pystr" where
  "ascii s = map of_char s"

text \<open>\<open>MainWindow.current_mode\<close>: the string "migration" or "cleanup".\<close>

datatype mode = Migration | Cleanup

text \<open>The Tk widget states the program uses (a read-only combobox counts as \<open>NORMAL\<close>).\<close>

datatype widget_state = NORMAL | DISABLED

text \<open>
  The disk dictionary built by \<open>DiskSelectorFrame._refresh_disks\<close>. Its two floating
  point entries (\<open>size_gb\<close>, \<open>partition_size_gb\<close>) only feed display strings and are
  left out.
\<close>

record disk =
  letter :: pystr
  name :: pystr
  path :: pystr
  index :: int
  size_bytes :: int

text \<open>The partition and layout values of the core (spec, section 3).\<close>

datatype category = Boot | Fat32 | Linux | AndroidTraditional | AndroidDynamic | Emummc | Unknown

record partition =
  category :: category
  start_sector :: nat
  sector_count :: nat
  label :: pystr

record layout =
  partitions :: "partition list"
  has_linux :: bool
  has_android :: bool
  android_dynamic :: bool
  has_emummc :: bool
  emummc_double :: bool

text \<open>The option dictionaries \<open>migration_options\<close> and \<open>cleanup_options\<close>.\<close>

record options =
  migrate_fat32 :: bool
  migrate_linux :: bool
  migrate_android :: bool
  migrate_emummc :: bool
  expand_fat32 :: bool

record cleanup_opts =
  remove_linux :: bool
  remove_android :: bool
  remove_emummc :: bool
  cleanup_expand_fat32 :: bool

text \<open>
  The two engines as the window constructs them: \<open>MigrationEngine(source_disk,
  target_disk, source_layout, target_layout, migration_options)\<close> and
  \<open>CleanupEngine(source_disk, source_layout, target_layout, cleanup_options)\<close>.
\<close>

datatype engine =
    MigrationEngine disk disk "layout option" "layout option" options
  | CleanupEngine disk "layout option" "layout option" cleanup_opts

text \<open>Worker threads started by the window.\<close>

datatype thread = ScanThread | EngineThread engine

text \<open>
  The status bar text, one constructor for each call of \<open>_update_status\<close>; the two
  texts that embed a caller's string (progress and failure) are kept as rendered strings.
\<close>

datatype status =
    StReady
  | StModeSelected mode
  | StSourceSelected disk
  | StTargetSelected disk
  | StScanning mode
  | StScanComplete mode layout
  | StScanFailed
  | StCalculating
  | StLayoutReady mode
  | StCalcFailed
  | StRunning mode
  | StSucceeded mode
  | StText pystr

text \<open>
  The information dialogs, one constructor for each call of \<open>show_custom_info\<close>; the
  failure dialog of an operation carries its rendered title and message.
\<close>

datatype dialog =
    DlgNoDiskSelected
  | DlgNoTargetSelected
  | DlgScanFailed pystr
  | DlgMissingScan
  | DlgMissingTarget
  | DlgCalcFailed pystr
  | DlgLayoutComparison mode
  | DlgInvalidTarget disk disk
  | DlgSameAsSource
  | DlgOperationComplete mode
  | DlgOperationFailed pystr pystr

text \<open>The callbacks handed to \<open>root.after(0, ...)\<close>, to be run by the Tk main loop.\<close>

datatype task =
    OnScanComplete layout
  | OnScanError pystr
  | ProgressUpdate pystr int
  | UpdateStatus pystr
  | CompleteUi
  | ErrorUi pystr

text \<open>The progress panel (\<open>start\<close>, \<open>update\<close>, \<open>complete\<close>, \<open>error\<close>, \<open>reset\<close>).\<close>

datatype progress_panel =
    PanelIdle
  | PanelReset mode
  | PanelStarted
  | PanelProgress pystr int
  | PanelComplete
  | PanelError

datatype scan_caption = CapSimulate | CapScan | CapSimulating | CapScanning

text \<open>The state of \<open>DiskSelectorFrame\<close>.\<close>

record selector =
  sel_source_disk :: "disk option"
  sel_target_disk :: "disk option"
  disk_map :: "pystr \<rightharpoonup> disk"
  source_combobox :: pystr
  target_combobox :: pystr
  source_info :: "disk option"
  target_info :: "disk option"
  target_selector_shown :: bool
  selector_enabled :: bool

text \<open>
  The state of \<open>MainWindow\<close>. \<open>dialogs\<close> is the history of information dialogs shown,
  \<open>after_queue\<close> the callbacks scheduled with \<open>root.after\<close> and not yet run,
  \<open>threads\<close> the worker threads started, and \<open>calc_calls\<close> the arguments of every call
  of \<open>scanner.calculate_target_layout\<close>. Captions and colours other than the scan
  button's are not modelled.
\<close>

record window =
  current_mode :: mode
  source_disk :: "disk option"
  target_disk :: "disk option"
  source_layout :: "layout option"
  target_layout :: "layout option"
  migration_options :: options
  cleanup_options :: cleanup_opts
  migration_engine :: "engine option"
  cleanup_engine :: "engine option"
  disk_selector :: selector
  scan_button :: widget_state
  scan_button_text :: scan_caption
  migrate_button :: widget_state
  source_partition_frame :: "(layout \<times> disk option) option"
  target_partition_frame :: "(layout \<times> disk option) option"
  frame_options :: options
  frame_mode :: mode
  frame_enabled :: bool
  frame_available :: "(bool \<times> bool \<times> bool) option"
  progress_panel :: progress_panel
  status_label :: status
  dialogs :: "dialog list"
  after_queue :: "task list"
  threads :: "thread list"
  calc_calls :: "(layout \<times> int \<times> options) list"

section \<open>Small helpers of the window\<close>

definition update_status :: "status \<Rightarrow> window \<Rightarrow> window" where
  "update_status m w = w\<lparr>status_label := m\<rparr>"

definition show_custom_info :: "dialog \<Rightarrow> window \<Rightarrow> window" where
  "show_custom_info d w = w\<lparr>dialogs := dialogs w @ [d]\<rparr>"

definition root_after :: "task \<Rightarrow> window \<Rightarrow> window" where
  "root_after t w = w\<lparr>after_queue := after_queue w @ [t]\<rparr>"

definition selector_set_enabled :: "bool \<Rightarrow> selector \<Rightarrow> selector" where
  "selector_set_enabled enabled s = s\<lparr>selector_enabled := enabled\<rparr>"

definition set_ui_enabled :: "bool \<Rightarrow> window \<Rightarrow> window" where
  "set_ui_enabled enabled w =
     (let state = (if enabled then NORMAL else DISABLED)
      in w\<lparr>disk_selector := selector_set_enabled enabled (disk_selector w),
            scan_button := state,
            migrate_button := state,
            frame_enabled := enabled\<rparr>)"

section \<open>The disk selector (\<open>gui/disk_selector.py\<close>)\<close>

definition clear_target :: "selector \<Rightarrow> selector" where
  "clear_target s = s\<lparr>target_combobox := [], sel_target_disk := None, target_info := None\<rparr>"

definition clear_selections :: "selector \<Rightarrow> selector" where
  "clear_selections s =
     clear_target (s\<lparr>source_combobox := [], sel_source_disk := None, source_info := None\<rparr>)"

definition show_target_selector :: "selector \<Rightarrow> selector" where
  "show_target_selector s = s\<lparr>target_selector_shown := True\<rparr>"

definition hide_target_selector :: "selector \<Rightarrow> selector" where
  "hide_target_selector s = s\<lparr>target_selector_shown := False\<rparr>"

section \<open>The main window (\<open>gui/main_window.py\<close>)\<close>

text \<open>
  \<open>scanner.calculate_target_layout\<close> is not part of the window: it is a parameter,
  returning the new layout or the text of the exception it raised. A subscript of
  \<open>None\<close> raises a \<open>TypeError\<close> with the text below.

  The widgets the window only calls (partition views, options frame, progress panel) are
  kept as the values the window gives them; their methods are taken not to raise. The
  \<open>options\<close> of the options frame change only when the user changes them. A layout
  object counts as true in a condition. An information dialog is recorded in \<open>dialogs\<close>
  and the handler goes on when it is closed.
\<close>

type_synonym calculator = "layout \<Rightarrow> int \<Rightarrow> options \<Rightarrow> pystr + layout"

definition none_subscript :: pystr where
  "none_subscript = ascii (CHR 0x27 # ''NoneType'' @ CHR 0x27 # '' object is not subscriptable'')"

definition switch_mode :: "mode \<Rightarrow> window \<Rightarrow> window" where
  "switch_mode m w =
     (if current_mode w = m then w
      else
        let w1 = w\<lparr>current_mode := m\<rparr>;
            w2 = (case m of
                    Migration \<Rightarrow>
                      (update_status (StModeSelected Migration) (w1\<lparr>scan_button_text := CapSimulate\<rparr>))
                        \<lparr>disk_selector := show_target_selector (disk_selector w1),
                         frame_mode := Migration\<rparr>
                  | Cleanup \<Rightarrow>
                      (update_status (StModeSelected Cleanup) (w1\<lparr>scan_button_text := CapScan\<rparr>))
                        \<lparr>disk_selector := hide_target_selector (disk_selector w1),
                         frame_mode := Cleanup\<rparr>)
        in w2\<lparr>source_disk := None,
               target_disk := None,
               source_layout := None,
               target_layout := None,
               source_partition_frame := None,
               target_partition_frame := None,
               migrate_button := DISABLED,
               disk_selector := clear_selections (disk_selector w2),
               progress_panel := PanelReset m\<rparr>)"

definition on_source_selected :: "disk \<Rightarrow> window \<Rightarrow> window" where
  "on_source_selected disk_info w =
     update_status (StSourceSelected disk_info)
       (w\<lparr>source_disk := Some disk_info,
           source_layout := None,
           source_partition_frame := None,
           target_partition_frame := None,
           migrate_button := DISABLED\<rparr>)"

definition on_target_selected :: "disk \<Rightarrow> window \<Rightarrow> window" where
  "on_target_selected disk_info w =
     (let w1 = w\<lparr>target_disk := Some disk_info,
                  target_layout := None,
                  target_partition_frame := None,
                  migrate_button := DISABLED\<rparr>
      in case source_disk w1 of
           Some src \<Rightarrow>
             if size_bytes disk_info \<le> size_bytes src then
               (let w2 = show_custom_info (DlgInvalidTarget disk_info src) w1
                in w2\<lparr>disk_selector := clear_target (disk_selector w2), target_disk := None\<rparr>)
             else update_status (StTargetSelected disk_info) w1
         | None \<Rightarrow> update_status (StTargetSelected disk_info) w1)"

text \<open>
  The two combobox handlers of the selector. They run on the window because the selector
  calls back into it (\<open>on_source_selected\<close>, \<open>on_target_selected\<close>, and
  \<open>main_window.show_custom_info\<close>). A key missing from \<open>disk_map\<close> raises
  \<open>KeyError\<close> before anything is changed.
\<close>

definition selector_on_source_selected :: "window \<Rightarrow> window" where
  "selector_on_source_selected w =
     (let s = disk_selector w; selection = source_combobox s
      in if selection = [] then w
         else case disk_map s selection of
                None \<Rightarrow> w
              | Some d \<Rightarrow>
                  on_source_selected d
                    (w\<lparr>disk_selector := s\<lparr>sel_source_disk := Some d, source_info := Some d\<rparr>\<rparr>))"

definition selector_on_target_selected :: "window \<Rightarrow> window" where
  "selector_on_target_selected w =
     (let s = disk_selector w; selection = target_combobox s
      in if selection = [] then w
         else case disk_map s selection of
                None \<Rightarrow> w
              | Some d \<Rightarrow>
                  if (case sel_source_disk s of None \<Rightarrow> False | Some src \<Rightarrow> path d = path src) then
                    (let w1 = show_custom_info DlgSameAsSource w
                     in w1\<lparr>disk_selector := (disk_selector w1)\<lparr>target_combobox := []\<rparr>\<rparr>)
                  else
                    on_target_selected d
                      (w\<lparr>disk_selector := s\<lparr>sel_target_disk := Some d, target_info := Some d\<rparr>\<rparr>))"

text \<open>
  A \<open>try\<close> body is a function to an optional exception text and the state reached
  when it was raised: what the body changed before raising stays changed.

  \<open>_show_layout_comparison\<close> builds its message from getters of the two layouts and
  from \<open>source_disk['size_gb']\<close> (and \<open>target_disk['size_gb']\<close> in migration mode),
  which raises when that disk is \<open>None\<close>.
\<close>

definition show_layout_comparison :: "window \<Rightarrow> pystr option \<times> window" where
  "show_layout_comparison w =
     (if source_layout w = None \<or> target_layout w = None then (None, w)
      else case current_mode w of
             Migration \<Rightarrow>
               if source_disk w = None \<or> target_disk w = None then (Some none_subscript, w)
               else (None, show_custom_info (DlgLayoutComparison Migration) w)
           | Cleanup \<Rightarrow>
               if source_disk w = None then (Some none_subscript, w)
               else (None, show_custom_info (DlgLayoutComparison Cleanup) w))"

definition cleanup_options_for_calc :: "cleanup_opts \<Rightarrow> options" where
  "cleanup_options_for_calc c =
     \<lparr>migrate_fat32 = True,
      migrate_linux = \<not> remove_linux c,
      migrate_android = \<not> remove_android c,
      migrate_emummc = \<not> remove_emummc c,
      expand_fat32 = cleanup_expand_fat32 c\<rparr>"

definition call_calculator ::
  "calculator \<Rightarrow> layout \<Rightarrow> int \<Rightarrow> options \<Rightarrow> disk option \<Rightarrow> window \<Rightarrow> pystr option \<times> window" where
  "call_calculator calc src cap opts shown_disk w =
     (let w1 = w\<lparr>calc_calls := calc_calls w @ [(src, cap, opts)]\<rparr>
      in case calc src cap opts of
           Inl e \<Rightarrow> (Some e, w1)
         | Inr new_layout \<Rightarrow>
             (None, w1\<lparr>target_layout := Some new_layout,
                       target_partition_frame := Some (new_layout, shown_disk)\<rparr>))"

definition calculate_layout_body :: "calculator \<Rightarrow> layout \<Rightarrow> window \<Rightarrow> pystr option \<times> window" where
  "calculate_layout_body calc src w =
     (let w1 = update_status StCalculating w;
          (exn, w2) =
            (case current_mode w1 of
               Migration \<Rightarrow>
                 (case target_disk w1 of
                    None \<Rightarrow> (Some none_subscript, w1)
                  | Some td \<Rightarrow>
                      call_calculator calc src (size_bytes td) (migration_options w1) (Some td) w1)
             | Cleanup \<Rightarrow>
                 (case source_disk w1 of
                    None \<Rightarrow> (Some none_subscript, w1)
                  | Some sd \<Rightarrow>
                      call_calculator calc src (size_bytes sd)
                        (cleanup_options_for_calc (cleanup_options w1)) (Some sd) w1))
      in case exn of
           Some e \<Rightarrow> (Some e, w2)
         | None \<Rightarrow>
             (case show_layout_comparison w2 of
                (Some e, w3) \<Rightarrow> (Some e, w3)
              | (None, w3) \<Rightarrow>
                  (None, update_status (StLayoutReady (current_mode w3)) (w3\<lparr>migrate_button := NORMAL\<rparr>))))"

definition calculate_layout :: "calculator \<Rightarrow> window \<Rightarrow> window" where
  "calculate_layout calc w =
     (case source_layout w of
        None \<Rightarrow> show_custom_info DlgMissingScan w
      | Some src \<Rightarrow>
          if current_mode w = Migration \<and> target_disk w = None then show_custom_info DlgMissingTarget w
          else (case calculate_layout_body calc src w of
                  (None, w') \<Rightarrow> w'
                | (Some e, w') \<Rightarrow> update_status StCalcFailed (show_custom_info (DlgCalcFailed e) w')))"

definition to_cleanup_options :: "options \<Rightarrow> cleanup_opts" where
  "to_cleanup_options opts =
     \<lparr>remove_linux = migrate_linux opts,
      remove_android = migrate_android opts,
      remove_emummc = migrate_emummc opts,
      cleanup_expand_fat32 = expand_fat32 opts\<rparr>"

definition on_options_changed :: "calculator \<Rightarrow> options \<Rightarrow> window \<Rightarrow> window" where
  "on_options_changed calc opts w =
     (let w1 = (case current_mode w of
                  Migration \<Rightarrow> w\<lparr>migration_options := opts\<rparr>
                | Cleanup \<Rightarrow> w\<lparr>cleanup_options := to_cleanup_options opts\<rparr>)
      in case current_mode w1 of
           Migration \<Rightarrow>
             if source_layout w1 \<noteq> None \<and> target_disk w1 \<noteq> None then calculate_layout calc w1 else w1
         | Cleanup \<Rightarrow>
             if source_layout w1 \<noteq> None then calculate_layout calc w1 else w1)"

definition scan_sd_cards :: "window \<Rightarrow> window" where
  "scan_sd_cards w =
     (if source_disk w = None then show_custom_info DlgNoDiskSelected w
      else if current_mode w = Migration \<and> target_disk w = None then
        show_custom_info DlgNoTargetSelected w
      else
        let w1 = (case current_mode w of
                    Migration \<Rightarrow>
                      (update_status (StScanning Migration) w)
                        \<lparr>scan_button := DISABLED, scan_button_text := CapSimulating\<rparr>
                  | Cleanup \<Rightarrow>
                      (update_status (StScanning Cleanup) w)
                        \<lparr>scan_button := DISABLED, scan_button_text := CapScanning\<rparr>)
        in w1\<lparr>threads := threads w1 @ [ScanThread]\<rparr>)"

text \<open>
  The body of the scan thread. \<open>scanner.scan_disk\<close> reads the device, so its outcome
  on a path is a parameter of the step: \<open>Inr\<close> the layout, \<open>Inl\<close> the text of the
  exception. The thread reads \<open>self.source_disk\<close> when it runs.
\<close>

definition scan_thread :: "(pystr \<Rightarrow> pystr + layout) \<Rightarrow> window \<Rightarrow> window" where
  "scan_thread scan_disk w =
     (case source_disk w of
        None \<Rightarrow> root_after (OnScanError none_subscript) w
      | Some sd \<Rightarrow>
          (case scan_disk (path sd) of
             Inr src \<Rightarrow> root_after (OnScanComplete src) w
           | Inl e \<Rightarrow> root_after (OnScanError e) w))"

text \<open>
  \<open>update_available_partitions\<close> of the options frame is taken to record the three
  flags and to leave the frame's \<open>options\<close> as they are.
\<close>

definition on_scan_complete :: "calculator \<Rightarrow> layout \<Rightarrow> window \<Rightarrow> window" where
  "on_scan_complete calc src w =
     (let w1 = w\<lparr>source_layout := Some src\<rparr>;
          w2 = (case current_mode w1 of
                  Migration \<Rightarrow> w1\<lparr>scan_button := NORMAL, scan_button_text := CapSimulate\<rparr>
                | Cleanup \<Rightarrow> w1\<lparr>scan_button := NORMAL, scan_button_text := CapScan\<rparr>);
          w3 = w2\<lparr>source_partition_frame := Some (src, source_disk w2),
                  frame_available := Some (has_linux src, has_android src, has_emummc src)\<rparr>;
          w4 = (case current_mode w3 of
                  Migration \<Rightarrow> w3\<lparr>migration_options := frame_options w3\<rparr>
                | Cleanup \<Rightarrow> w3\<lparr>cleanup_options := to_cleanup_options (frame_options w3)\<rparr>);
          w5 = update_status (StScanComplete (current_mode w4) src) w4
      in calculate_layout calc w5)"

definition on_scan_error :: "pystr \<Rightarrow> window \<Rightarrow> window" where
  "on_scan_error error_msg w =
     update_status StScanFailed
       (show_custom_info (DlgScanFailed error_msg)
          (w\<lparr>scan_button := NORMAL, scan_button_text := CapSimulate\<rparr>))"

text \<open>
  \<open>_start_migration\<close>. The two confirmation dialogs are modal; their answers are the
  arguments \<open>response\<close> and \<open>response2\<close>. Formatting the first confirmation text reads
  the disks (and, in cleanup mode, the source layout when a removal flag is set): when one
  of them is \<open>None\<close> the handler raises before it changes anything.
\<close>

definition start_migration :: "bool \<Rightarrow> bool \<Rightarrow> window \<Rightarrow> window" where
  "start_migration response response2 w =
     (case current_mode w of
        Migration \<Rightarrow>
          (case (target_disk w, source_disk w) of
             (Some td, Some sd) \<Rightarrow>
               if \<not> response then w
               else if \<not> response2 then w
               else
                 let w1 = set_ui_enabled False w;
                     e = MigrationEngine sd td (source_layout w1) (target_layout w1) (migration_options w1);
                     w2 = w1\<lparr>migration_engine := Some e\<rparr>;
                     w3 = (update_status (StRunning Migration) w2)\<lparr>progress_panel := PanelStarted\<rparr>
                 in w3\<lparr>threads := threads w3 @ [EngineThread e]\<rparr>
           | _ \<Rightarrow> w)
      | Cleanup \<Rightarrow>
          if (remove_linux (cleanup_options w) \<or> remove_android (cleanup_options w)
                \<or> remove_emummc (cleanup_options w)) \<and> source_layout w = None then w
          else
            (case source_disk w of
               None \<Rightarrow> w
             | Some sd \<Rightarrow>
                 if \<not> response then w
                 else if \<not> response2 then w
                 else
                   let w1 = set_ui_enabled False w;
                       e = CleanupEngine sd (source_layout w1) (target_layout w1) (cleanup_options w1);
                       w2 = w1\<lparr>cleanup_engine := Some e\<rparr>;
                       w3 = (update_status (StRunning Cleanup) w2)\<lparr>progress_panel := PanelStarted\<rparr>
                   in w3\<lparr>threads := threads w3 @ [EngineThread e]\<rparr>))"

subsection \<open>The engine callbacks\<close>

text \<open>
  \<open>_on_operation_progress\<close>, \<open>_on_operation_complete\<close> and \<open>_on_operation_error\<close> are
  called by the engine on its worker thread. The closures \<open>complete_ui\<close> and
  \<open>error_ui\<close> they define are run later by the main loop.
\<close>

definition on_operation_progress :: "pystr \<Rightarrow> int \<Rightarrow> pystr \<Rightarrow> window \<Rightarrow> window" where
  "on_operation_progress stage percent message w =
     (let w1 = root_after (ProgressUpdate stage percent) w;
          status_message = stage @ ascii '' - '' @ message
      in root_after (UpdateStatus status_message) w1)"

definition on_operation_complete :: "window \<Rightarrow> window" where
  "on_operation_complete w = root_after CompleteUi w"

definition on_operation_error :: "pystr \<Rightarrow> window \<Rightarrow> window" where
  "on_operation_error error_msg w = root_after (ErrorUi error_msg) w"

definition complete_ui :: "window \<Rightarrow> window" where
  "complete_ui w =
     (let w1 = set_ui_enabled True (w\<lparr>progress_panel := PanelComplete\<rparr>);
          w2 = update_status (StSucceeded (current_mode w1)) w1
      in show_custom_info (DlgOperationComplete (current_mode w2)) w2)"

text \<open>The literals of \<open>error_ui\<close> (lines 850 to 864), as code points.\<close>

definition migration_failed_status :: pystr where
  "migration_failed_status = [0x8fc1, 0x79fb, 0x5931, 0x8d25, 0xff1a]"

definition migration_failed_title :: pystr where
  "migration_failed_title = [0x8fc1, 0x79fb, 0x5931, 0x8d25]"

definition migration_failed_intro :: pystr where
  "migration_failed_intro =
     [0x8fc1, 0x79fb, 0x5931, 0x8d25, 0xff0c, 0x9519, 0x8bef, 0x4fe1, 0x606f, 0xff1a, 10, 10]"

definition target_disk_text :: pystr where
  "target_disk_text = [0x76ee, 0x6807, 0x78c1, 0x76d8]"

definition sd_card_text :: pystr where
  "sd_card_text = [83, 68, 32, 0x5361]"

definition may_be_inconsistent :: pystr where
  "may_be_inconsistent = [0x53ef, 0x80fd, 0x5904, 0x4e8e, 0x4e0d, 0x4e00, 0x81f4, 0x72b6, 0x6001, 0x3002]"

definition cleanup_failed_status :: pystr where
  "cleanup_failed_status = [0x6e05, 0x7406, 0x5931, 0x8d25, 0xff1a]"

definition cleanup_failed_title :: pystr where
  "cleanup_failed_title = [0x6e05, 0x7406, 0x5931, 0x8d25]"

definition cleanup_failed_intro :: pystr where
  "cleanup_failed_intro =
     [0x6e05, 0x7406, 0x5931, 0x8d25, 0xff0c, 0x9519, 0x8bef, 0x4fe1, 0x606f, 0xff1a, 10, 10]"

definition restore_from_backup :: pystr where
  "restore_from_backup =
     [0x5982, 0x6709, 0x9700, 0x8981, 0xff0c, 0x8bf7, 0x4ece, 0x5907, 0x4efd, 0x6062, 0x590d, 0x3002]"

definition error_ui :: "pystr \<Rightarrow> window \<Rightarrow> window" where
  "error_ui error_msg w =
     (let w1 = set_ui_enabled True (w\<lparr>progress_panel := PanelError\<rparr>)
      in case current_mode w1 of
           Migration \<Rightarrow>
             show_custom_info
               (DlgOperationFailed migration_failed_title
                  (migration_failed_intro @ error_msg @ [10, 10]
                     @ target_disk_text @ may_be_inconsistent))
               (update_status (StText (migration_failed_status @ error_msg)) w1)
         | Cleanup \<Rightarrow>
             show_custom_info
               (DlgOperationFailed cleanup_failed_title
                  (cleanup_failed_intro @ error_msg @ [10, 10]
                     @ sd_card_text @ may_be_inconsistent @ [10] @ restore_from_backup))
               (update_status (StText (cleanup_failed_status @ error_msg)) w1))"

subsection \<open>The Tk main loop\<close>

definition run_task :: "calculator \<Rightarrow> task \<Rightarrow> window \<Rightarrow> window" where
  "run_task calc t w =
     (case t of
        OnScanComplete src \<Rightarrow> on_scan_complete calc src w
      | OnScanError e \<Rightarrow> on_scan_error e w
      | ProgressUpdate stage percent \<Rightarrow> w\<lparr>progress_panel := PanelProgress stage percent\<rparr>
      | UpdateStatus m \<Rightarrow> update_status (StText m) w
      | CompleteUi \<Rightarrow> complete_ui w
      | ErrorUi e \<Rightarrow> error_ui e w)"

definition main_loop_step :: "calculator \<Rightarrow> window \<Rightarrow> window" where
  "main_loop_step calc w =
     (case after_queue w of
        [] \<Rightarrow> w
      | t # ts \<Rightarrow> run_task calc t (w\<lparr>after_queue := ts\<rparr>))"

section \<open>Events\<close>

text \<open>
  What can happen to the window: the user's clicks and selections, the steps of the
  worker threads, and the main loop running the next scheduled callback. Tk does not
  deliver the command of a disabled widget, nor a selection in a disabled or hidden
  combobox; the two mode buttons are never disabled. Picking an entry of a combobox sets
  its text before the handler runs. The engine reports through the three callbacks that
  \<open>_start_migration\<close> registers on it.
\<close>

datatype callback = OnProgress pystr int pystr | OnComplete | OnError pystr

datatype event =
    ClickMode mode
  | PickSource pystr
  | PickTarget pystr
  | ChangeOptions options
  | ClickScan
  | ScanThreadRuns "pystr \<Rightarrow> pystr + layout"
  | ClickStart bool bool
  | EngineCalls callback
  | MainLoop

definition deliver :: "callback \<Rightarrow> window \<Rightarrow> window" where
  "deliver cb w =
     (case cb of
        OnProgress stage percent message \<Rightarrow> on_operation_progress stage percent message w
      | OnComplete \<Rightarrow> on_operation_complete w
      | OnError error_msg \<Rightarrow> on_operation_error error_msg w)"

definition fire :: "calculator \<Rightarrow> event \<Rightarrow> window \<Rightarrow> window" where
  "fire calc ev w =
     (case ev of
        ClickMode m \<Rightarrow> switch_mode m w
      | PickSource selection \<Rightarrow>
          if selector_enabled (disk_selector w) then
            selector_on_source_selected
              (w\<lparr>disk_selector := (disk_selector w)\<lparr>source_combobox := selection\<rparr>\<rparr>)
          else w
      | PickTarget selection \<Rightarrow>
          if selector_enabled (disk_selector w) \<and> target_selector_shown (disk_selector w) then
            selector_on_target_selected
              (w\<lparr>disk_selector := (disk_selector w)\<lparr>target_combobox := selection\<rparr>\<rparr>)
          else w
      | ChangeOptions opts \<Rightarrow>
          if frame_enabled w then on_options_changed calc opts (w\<lparr>frame_options := opts\<rparr>) else w
      | ClickScan \<Rightarrow> if scan_button w = NORMAL then scan_sd_cards w else w
      | ScanThreadRuns scan_disk \<Rightarrow> scan_thread scan_disk w
      | ClickStart response response2 \<Rightarrow>
          if migrate_button w = NORMAL then start_migration response response2 w else w
      | EngineCalls cb \<Rightarrow> deliver cb w
      | MainLoop \<Rightarrow> main_loop_step calc w)"

definition run_events :: "calculator \<Rightarrow> event list \<Rightarrow> window \<Rightarrow> window" where
  "run_events calc evs w = foldl (\<lambda>s ev. fire calc ev s) w evs"

text \<open>
  The window as \<open>MainWindow.__init__\<close> leaves it, with the selector holding the disk
  map of the last refresh.
\<close>

definition initial_selector :: "(pystr \<rightharpoonup> disk) \<Rightarrow> selector" where
  "initial_selector dm =
     \<lparr>sel_source_disk = None, sel_target_disk = None, disk_map = dm,
      source_combobox = [], target_combobox = [], source_info = None, target_info = None,
      target_selector_shown = True, selector_enabled = True\<rparr>"

definition default_options :: options where
  "default_options =
     \<lparr>migrate_fat32 = True, migrate_linux = True, migrate_android = True,
      migrate_emummc = True, expand_fat32 = True\<rparr>"

definition initial_window :: "(pystr \<rightharpoonup> disk) \<Rightarrow> window" where
  "initial_window dm =
     \<lparr>current_mode = Migration,
      source_disk = None, target_disk = None, source_layout = None, target_layout = None,
      migration_options = default_options,
      cleanup_options = \<lparr>remove_linux = False, remove_android = False, remove_emummc = False,
                         cleanup_expand_fat32 = True\<rparr>,
      migration_engine = None, cleanup_engine = None,
      disk_selector = initial_selector dm,
      scan_button = NORMAL, scan_button_text = CapSimulate, migrate_button = DISABLED,
      source_partition_frame = None, target_partition_frame = None,
      frame_options = default_options, frame_mode = Migration, frame_enabled = True,
      frame_available = None,
      progress_panel = PanelIdle, status_label = StReady,
      dialogs = [], after_queue = [], threads = [], calc_calls = []\<rparr>"

section \<open>The engines' \<open>run\<close>\<close>

text \<open>
  Modelled from the spec: \<open>MigrationEngine.run\<close> and \<open>CleanupEngine.run\<close>, which live in
  \<open>core/migration_engine.py\<close> and \<open>core/cleanup_engine.py\<close>, outside the sources at
  hand. Sections 4.3 and 4.4 give their state machines:
  \<open>Preparing, WritingTable, Copying\<close> (per selected category, in the fixed order),
  \<open>ExpandingFat32\<close> (if requested), \<open>PatchingMetadata, Verifying, Done\<close> for migration and
  \<open>Preparing, WritingTable, ExpandingFat32\<close> (if requested), \<open>PatchingMetadata, Done\<close>
  for cleanup, with \<open>Failed\<close> reachable from every state that is not terminal. Section 6
  gives the callbacks. What a stage does to the devices is its \<open>outcome\<close>: the progress
  it reports (percent and message) and, if it fails, the error text.
\<close>

datatype stage =
    Preparing
  | WritingTable
  | Copying category
  | ExpandingFat32
  | PatchingMetadata
  | Verifying

record outcome =
  reports :: "(int \<times> pystr) list"
  failure :: "pystr option"

definition stage_name :: "stage \<Rightarrow> pystr" where
  "stage_name s =
     (case s of
        Preparing \<Rightarrow> ascii ''Preparing''
      | WritingTable \<Rightarrow> ascii ''WritingTable''
      | Copying c \<Rightarrow> ascii ''Copying''
      | ExpandingFat32 \<Rightarrow> ascii ''ExpandingFat32''
      | PatchingMetadata \<Rightarrow> ascii ''PatchingMetadata''
      | Verifying \<Rightarrow> ascii ''Verifying'')"

text \<open>
  Modelled from the spec: the optional categories an operation keeps (section 3,
  \<open>OperationOptions\<close>), in the fixed order of section 4.2, and the stages of the two
  state machines.
\<close>

definition selected :: "options \<Rightarrow> category \<Rightarrow> bool" where
  "selected opts c =
     (case c of
        Linux \<Rightarrow> migrate_linux opts
      | AndroidTraditional \<Rightarrow> migrate_android opts
      | AndroidDynamic \<Rightarrow> migrate_android opts
      | Emummc \<Rightarrow> migrate_emummc opts
      | _ \<Rightarrow> False)"

definition optional_order :: "category list" where
  "optional_order = [Linux, AndroidTraditional, AndroidDynamic, Emummc]"

definition present :: "layout option \<Rightarrow> category \<Rightarrow> bool" where
  "present src c =
     (case src of None \<Rightarrow> False | Some l \<Rightarrow> list_ex (\<lambda>p. category p = c) (partitions l))"

definition stages_of :: "engine \<Rightarrow> stage list" where
  "stages_of e =
     (case e of
        MigrationEngine sd td src tgt opts \<Rightarrow>
          [Preparing, WritingTable]
          @ map Copying (Boot # Fat32 # filter (\<lambda>c. selected opts c \<and> present src c) optional_order)
          @ (if expand_fat32 opts then [ExpandingFat32] else [])
          @ [PatchingMetadata, Verifying]
      | CleanupEngine sd src tgt copts \<Rightarrow>
          [Preparing, WritingTable]
          @ (if cleanup_expand_fat32 copts then [ExpandingFat32] else [])
          @ [PatchingMetadata])"

text \<open>
  Modelled from the spec: \<open>run\<close> goes through the stages in order; each stage reports its
  progress; the first stage that fails ends the run in \<open>Failed\<close> with \<open>on_error\<close>, and a
  run whose stages all succeed ends in \<open>Done\<close> with \<open>on_complete\<close>.
\<close>

fun run_stages :: "(stage \<Rightarrow> outcome) \<Rightarrow> stage list \<Rightarrow> callback list" where
  "run_stages dev [] = [OnComplete]"
| "run_stages dev (s # ss) =
     map (\<lambda>(percent, message). OnProgress (stage_name s) percent message) (reports (dev s))
     @ (case failure (dev s) of
          Some error_msg \<Rightarrow> [OnError error_msg]
        | None \<Rightarrow> run_stages dev ss)"

definition run :: "(stage \<Rightarrow> outcome) \<Rightarrow> engine \<Rightarrow> callback list" where
  "run dev e = run_stages dev (stages_of e)"

text \<open>The shape section 6 promises: progress callbacks, then one terminal callback.\<close>

fun is_progress :: "callback \<Rightarrow> bool" where
  "is_progress (OnProgress stage percent message) = True"
| "is_progress _ = False"

fun is_terminal :: "callback \<Rightarrow> bool" where
  "is_terminal OnComplete = True"
| "is_terminal (OnError error_msg) = True"
| "is_terminal _ = False"

definition progress_then_one_terminal :: "callback list \<Rightarrow> bool" where
  "progress_then_one_terminal cbs =
     (cbs \<noteq> [] \<and> list_all is_progress (butlast cbs) \<and> is_terminal (last cbs))"

text \<open>The engine thread: \<open>run\<close> calls the window's handlers, one after the other.\<close>

definition engine_thread :: "(stage \<Rightarrow> outcome) \<Rightarrow> engine \<Rightarrow> window \<Rightarrow> window" where
  "engine_thread dev e w = foldl (\<lambda>s cb. deliver cb s) w (run dev e)"

fun scheduled :: "callback \<Rightarrow> task list" where
  "scheduled (OnProgress stage percent message) =
     [ProgressUpdate stage percent, UpdateStatus (stage @ ascii '' - '' @ message)]"
| "scheduled OnComplete = [CompleteUi]"
| "scheduled (OnError error_msg) = [ErrorUi error_msg]"

section \<open>The layout calculator\<close>

text \<open>
  Modelled from the spec: \<open>plan\<close> (\<open>scanner.calculate_target_layout\<close> in
  \<open>core/partition_scanner.py\<close>, outside the sources at hand), following the six steps
  of section 4.2. The spec names an alignment boundary, a minimum FAT32 size and an
  alignment reserve without giving their values: they are the parameters \<open>plan_params\<close>.
  A relocation entry is (slot, old start sector, new start sector).
\<close>

record plan_params =
  alignment :: nat
  fat32_floor :: nat
  alignment_reserve :: nat

datatype layout_error = InsufficientSpace | SizeTooSmallFat32

type_synonym relocation_map = "(nat \<times> nat \<times> nat) list"

definition parts_of :: "category \<Rightarrow> layout \<Rightarrow> partition list" where
  "parts_of c l = filter (\<lambda>p. category p = c) (partitions l)"

definition size_of :: "partition list \<Rightarrow> nat" where
  "size_of ps = sum_list (map sector_count ps)"

definition kept :: "options \<Rightarrow> layout \<Rightarrow> partition list" where
  "kept opts l = concat (map (\<lambda>c. if selected opts c then parts_of c l else []) optional_order)"

definition align_up :: "nat \<Rightarrow> nat \<Rightarrow> nat" where
  "align_up a n = (if a = 0 then n else ((n + a - 1) div a) * a)"

fun place :: "nat \<Rightarrow> nat \<Rightarrow> partition list \<Rightarrow> partition list" where
  "place a cursor [] = []"
| "place a cursor (p # ps) =
     (let s = align_up a cursor
      in p\<lparr>start_sector := s\<rparr> # place a (s + sector_count p) ps)"

definition fat32_size :: "plan_params \<Rightarrow> layout \<Rightarrow> nat \<Rightarrow> options \<Rightarrow> int" where
  "fat32_size pp src capacity opts =
     (if expand_fat32 opts then
        int capacity - int (size_of (parts_of Boot src)) - int (size_of (kept opts src))
          - int (alignment_reserve pp)
      else int (size_of (parts_of Fat32 src)))"

definition end_of :: "partition list \<Rightarrow> nat" where
  "end_of ps = (case ps of [] \<Rightarrow> 0 | _ \<Rightarrow> start_sector (last ps) + sector_count (last ps))"

definition relocations :: "partition list \<Rightarrow> partition list \<Rightarrow> relocation_map" where
  "relocations old new =
     map (\<lambda>(slot, p, q). (slot, start_sector p, start_sector q))
       (filter (\<lambda>(slot, p, q). start_sector p \<noteq> start_sector q)
          (zip [0 ..< length old] (zip old new)))"

definition plan ::
  "plan_params \<Rightarrow> layout \<Rightarrow> nat \<Rightarrow> options \<Rightarrow> layout_error + (layout \<times> relocation_map)" where
  "plan pp src capacity opts =
     (let boot = parts_of Boot src;
          optional = kept opts src;
          fat = fat32_size pp src capacity opts
      in if fat < int (fat32_floor pp) then Inl SizeTooSmallFat32
         else if int capacity < int (size_of boot) + fat + int (size_of optional) then
           Inl InsufficientSpace
         else
           let moved = place (alignment pp) (end_of boot)
                         (map (\<lambda>p. p\<lparr>sector_count := nat fat\<rparr>) (parts_of Fat32 src) @ optional);
               new = \<lparr>partitions = boot @ moved,
                      has_linux = (has_linux src \<and> migrate_linux opts),
                      has_android = (has_android src \<and> migrate_android opts),
                      android_dynamic = (android_dynamic src \<and> migrate_android opts),
                      has_emummc = (has_emummc src \<and> migrate_emummc opts),
                      emummc_double = (emummc_double src \<and> migrate_emummc opts)\<rparr>
           in Inr (new, relocations (parts_of Emummc src) (parts_of Emummc new)))"

text \<open>
  Modelled from the spec: the calculator as the window calls it. The capacity comes in
  bytes, the result is the new layout or the text of the error raised.
\<close>

definition error_text :: "layout_error \<Rightarrow> pystr" where
  "error_text e =
     (case e of
        InsufficientSpace \<Rightarrow> ascii ''InsufficientSpace''
      | SizeTooSmallFat32 \<Rightarrow> ascii ''SizeTooSmallFat32'')"

definition calculate_target_layout :: "plan_params \<Rightarrow> int \<Rightarrow> calculator" where
  "calculate_target_layout pp sector_size src size_in_bytes opts =
     (case plan pp src (nat (size_in_bytes div sector_size)) opts of
        Inl e \<Rightarrow> Inl (error_text e)
      | Inr (new, reloc) \<Rightarrow> Inr new)"

section \<open>Sample devices\<close>

text \<open>
  Two cards as a refresh lists them, a 32 GB card and a 64 GB card, and the layout read
  from a card holding a boot region, FAT32, Linux and one emuMMC (sizes in sectors of 512
  bytes).
\<close>

definition name_a :: pystr where
  "name_a = ascii ''E: - SWITCH (32.0 GB)''"

definition name_b :: pystr where
  "name_b = ascii ''F: - SWITCH (64.0 GB)''"

definition card_a :: disk where
  "card_a = \<lparr>letter = ascii ''E:'', name = ascii ''Generic SD'', path = ascii ''PhysicalDrive1'',
             index = 1, size_bytes = 32000000000\<rparr>"

definition card_b :: disk where
  "card_b = \<lparr>letter = ascii ''F:'', name = ascii ''Generic SD'', path = ascii ''PhysicalDrive2'',
             index = 2, size_bytes = 64000000000\<rparr>"

definition two_cards :: "pystr \<rightharpoonup> disk" where
  "two_cards = [name_a \<mapsto> card_a, name_b \<mapsto> card_b]"

definition layout_a :: layout where
  "layout_a =
     \<lparr>partitions =
        [\<lparr>category = Boot, start_sector = 0, sector_count = 32768, label = ascii ''boot''\<rparr>,
         \<lparr>category = Fat32, start_sector = 32768, sector_count = 40960000, label = ascii ''hos_data''\<rparr>,
         \<lparr>category = Linux, start_sector = 40992768, sector_count = 8388608, label = ascii ''l4t''\<rparr>,
         \<lparr>category = Emummc, start_sector = 49381376, sector_count = 8388608, label = ascii ''emummc''\<rparr>],
      has_linux = True, has_android = False, android_dynamic = False,
      has_emummc = True, emummc_double = False\<rparr>"

definition sample_params :: plan_params where
  "sample_params = \<lparr>alignment = 2048, fat32_floor = 2097152, alignment_reserve = 32768\<rparr>"

definition sample_calc :: calculator where
  "sample_calc = calculate_target_layout sample_params 512"

definition io_error :: pystr where
  "io_error = ascii ''Failed to open disk''"

section \<open>Sample sessions\<close>

text \<open>
  What the sample calculator (alignment 2048 sectors, FAT32 floor 1 GiB) plans for
  \<open>layout_a\<close> on the 32 GB card and on the 64 GB card with every option set.
\<close>

definition planned_a :: layout where
  "planned_a =
     \<lparr>partitions =
        [\<lparr>category = Boot, start_sector = 0, sector_count = 32768, label = ascii ''boot''\<rparr>,
         \<lparr>category = Fat32, start_sector = 32768, sector_count = 45657248, label = ascii ''hos_data''\<rparr>,
         \<lparr>category = Linux, start_sector = 45690880, sector_count = 8388608, label = ascii ''l4t''\<rparr>,
         \<lparr>category = Emummc, start_sector = 54079488, sector_count = 8388608, label = ascii ''emummc''\<rparr>],
      has_linux = True, has_android = False, android_dynamic = False,
      has_emummc = True, emummc_double = False\<rparr>"

definition planned_b :: layout where
  "planned_b =
     \<lparr>partitions =
        [\<lparr>category = Boot, start_sector = 0, sector_count = 32768, label = ascii ''boot''\<rparr>,
         \<lparr>category = Fat32, start_sector = 32768, sector_count = 108157248, label = ascii ''hos_data''\<rparr>,
         \<lparr>category = Linux, start_sector = 108191744, sector_count = 8388608, label = ascii ''l4t''\<rparr>,
         \<lparr>category = Emummc, start_sector = 116580352, sector_count = 8388608, label = ascii ''emummc''\<rparr>],
      has_linux = True, has_android = False, android_dynamic = False,
      has_emummc = True, emummc_double = False\<rparr>"

text \<open>The source and target disks of the engine threads started so far.\<close>

fun engine_disks :: "engine \<Rightarrow> disk \<times> disk" where
  "engine_disks (MigrationEngine sd td src tgt opts) = (sd, td)"
| "engine_disks (CleanupEngine sd src tgt copts) = (sd, sd)"

definition started_runs :: "window \<Rightarrow> (disk \<times> disk) list" where
  "started_runs w =
     concat (map (\<lambda>t. case t of ScanThread \<Rightarrow> [] | EngineThread e \<Rightarrow> [engine_disks e]) (threads w))"

text \<open>
  Four sessions, each starting after a refresh that found the two cards. In the first a
  scan succeeds and a second scan of the same card fails. In the second and third the user
  picks the target before the source. In the fourth the user switches the mode while the
  migration is running.
\<close>

definition failed_rescan :: "event list" where
  "failed_rescan =
     [PickSource name_a, PickTarget name_b,
      ClickScan, ScanThreadRuns (\<lambda>p. Inr layout_a), MainLoop,
      ClickScan, ScanThreadRuns (\<lambda>p. Inl io_error), MainLoop]"

definition source_after_target :: "event list" where
  "source_after_target =
     [PickTarget name_a, PickSource name_b,
      ClickScan, ScanThreadRuns (\<lambda>p. Inr layout_a), MainLoop,
      ClickStart True True]"

definition same_card :: "event list" where
  "same_card =
     [PickTarget name_a, PickSource name_a,
      ClickScan, ScanThreadRuns (\<lambda>p. Inr layout_a), MainLoop,
      ClickStart True True]"

definition mode_switch_during_run :: "event list" where
  "mode_switch_during_run =
     [PickSource name_a, PickTarget name_b,
      ClickScan, ScanThreadRuns (\<lambda>p. Inr layout_a), MainLoop,
      ClickStart True True, ClickMode Cleanup, EngineCalls OnComplete, MainLoop]"


text \<open>The window after the user has switched to cleanup mode and picked the 32 GB card.\<close>

definition source_picked :: window where
  "source_picked =
     run_events sample_calc [ClickMode Cleanup, PickSource name_a] (initial_window two_cards)"


definition layout_b :: layout where
  "layout_b =
     \<lparr>partitions =
        [\<lparr>category = Boot, start_sector = 0, sector_count = 32768, label = ascii ''boot''\<rparr>,
         \<lparr>category = Fat32, start_sector = 32768, sector_count = 124900000, label = ascii ''hos_data''\<rparr>],
      has_linux = False, has_android = False, android_dynamic = False,
      has_emummc = False, emummc_double = False\<rparr>"

definition reads_cards :: "pystr \<Rightarrow> pystr + layout" where
  "reads_cards p = (if p = path card_a then Inr layout_a else Inr layout_b)"


definition nothing_ticked :: options where
  "nothing_ticked =
     \<lparr>migrate_fat32 = True, migrate_linux = False, migrate_android = False,
      migrate_emummc = False, expand_fat32 = True\<rparr>"



text \<open>
  Two more sessions. In \<open>failure_after_mode_switch\<close> a migration from the 32 GB card to
  the 64 GB card is started, the user switches to cleanup mode while it runs, and the
  engine then reports an error. In \<open>source_changed_during_scan\<close>, in cleanup mode, the
  user picks the 32 GB card and clicks scan; the scan thread reads that card; before the
  main loop runs the scan's callback the user picks the 64 GB card; then the callback runs
  and the user starts the cleanup.
\<close>

definition failure_after_mode_switch :: "event list" where
  "failure_after_mode_switch =
     [PickSource name_a, PickTarget name_b,
      ClickScan, ScanThreadRuns (\<lambda>p. Inr layout_a), MainLoop,
      ClickStart True True, ClickMode Cleanup, EngineCalls (OnError io_error), MainLoop]"

definition source_changed_during_scan :: "event list" where
  "source_changed_during_scan =
     [ClickMode Cleanup, ChangeOptions nothing_ticked, PickSource name_a,
      ClickScan, ScanThreadRuns reads_cards, PickSource name_b, MainLoop,
      ClickStart True True]"

section \<open>Properties\<close>

lemmas plan_defs = calculate_target_layout_def plan_def parts_of_def kept_def selected_def
  optional_order_def fat32_size_def size_of_def end_of_def align_up_def relocations_def
  sample_params_def error_text_def

lemmas gui_defs = run_events_def fire_def switch_mode_def on_source_selected_def
  on_target_selected_def selector_on_source_selected_def selector_on_target_selected_def
  show_layout_comparison_def cleanup_options_for_calc_def call_calculator_def
  calculate_layout_body_def calculate_layout_def to_cleanup_options_def on_options_changed_def
  scan_sd_cards_def scan_thread_def on_scan_complete_def on_scan_error_def start_migration_def
  on_operation_progress_def on_operation_complete_def on_operation_error_def complete_ui_def
  error_ui_def run_task_def main_loop_step_def deliver_def update_status_def
  show_custom_info_def root_after_def selector_set_enabled_def set_ui_enabled_def
  clear_target_def clear_selections_def show_target_selector_def hide_target_selector_def
  initial_selector_def initial_window_def

lemmas sample_defs = name_a_def name_b_def card_a_def card_b_def two_cards_def ascii_def

subsection \<open>Engine callbacks only schedule work for the main loop\<close>

text \<open>
  Claim C8. Each of the three engine callbacks the window registers
  (\<open>on_progress\<close>, \<open>on_complete\<close>, \<open>on_error\<close>) leaves every field of the window
  as it is and only appends callbacks to the queue of \<open>root.after\<close>: the progress
  handler schedules the progress panel update and the status text, the other two schedule
  their closure. All changes of the user interface happen when the main loop runs the
  scheduled callbacks.
\<close>

theorem engine_callbacks_only_schedule:
  "on_operation_progress stage percent message w =
     w\<lparr>after_queue := after_queue w @
          [ProgressUpdate stage percent, UpdateStatus (stage @ ascii '' - '' @ message)]\<rparr>
   \<and> on_operation_complete w = w\<lparr>after_queue := after_queue w @ [CompleteUi]\<rparr>
   \<and> on_operation_error error_msg w = w\<lparr>after_queue := after_queue w @ [ErrorUi error_msg]\<rparr>"
  by (simp add: on_operation_progress_def on_operation_complete_def on_operation_error_def
      root_after_def Let_def)

subsection \<open>A failed operation is shown to the user\<close>

lemma error_ui_dialog:
  "\<exists>title msg. dialogs (error_ui error_msg w) = dialogs w @ [DlgOperationFailed title msg]
     \<and> sublist error_msg msg
     \<and> sublist ((case current_mode w of Migration \<Rightarrow> target_disk_text | Cleanup \<Rightarrow> sd_card_text)
                  @ may_be_inconsistent) msg"
proof (cases "current_mode w")
  case Migration
  let ?msg = "migration_failed_intro @ error_msg @ [10, 10] @ target_disk_text @ may_be_inconsistent"
  have d: "dialogs (error_ui error_msg w) = dialogs w @ [DlgOperationFailed migration_failed_title ?msg]"
    using Migration
    by (simp add: error_ui_def set_ui_enabled_def show_custom_info_def update_status_def Let_def)
  have e: "sublist error_msg ?msg"
    by (rule sublist_appendI)
  have "?msg = (migration_failed_intro @ error_msg @ [10, 10])
                 @ (target_disk_text @ may_be_inconsistent) @ []"
    by simp
  then have t: "sublist (target_disk_text @ may_be_inconsistent) ?msg"
    unfolding sublist_def by blast
  from d e t Migration show ?thesis by auto
next
  case Cleanup
  let ?msg = "cleanup_failed_intro @ error_msg @ [10, 10] @ sd_card_text @ may_be_inconsistent
                @ [10] @ restore_from_backup"
  have d: "dialogs (error_ui error_msg w) = dialogs w @ [DlgOperationFailed cleanup_failed_title ?msg]"
    using Cleanup
    by (simp add: error_ui_def set_ui_enabled_def show_custom_info_def update_status_def Let_def)
  have e: "sublist error_msg ?msg"
    by (rule sublist_appendI)
  have "?msg = (cleanup_failed_intro @ error_msg @ [10, 10]) @ (sd_card_text @ may_be_inconsistent)
                 @ ([10] @ restore_from_backup)"
    by simp
  then have t: "sublist (sd_card_text @ may_be_inconsistent) ?msg"
    unfolding sublist_def by blast
  from d e t Cleanup show ?thesis by auto
qed

text \<open>
  What \<open>error_ui\<close> shows, in whatever state \<open>w'\<close> the window is when the main loop runs
  it: the progress panel shows the error and one more dialog is shown, whose message
  contains the engine's error text and a sentence that a disk may be in an inconsistent
  state. The sentence names the target disk when the window is in migration mode at that
  moment, and the SD card when it is in cleanup mode.
\<close>

lemma operation_error_is_surfaced:
  "after_queue (on_operation_error error_msg w) = after_queue w @ [ErrorUi error_msg]
   \<and> progress_panel (run_task calc (ErrorUi error_msg) w') = PanelError
   \<and> (\<exists>title msg.
         dialogs (run_task calc (ErrorUi error_msg) w') = dialogs w' @ [DlgOperationFailed title msg]
         \<and> sublist error_msg msg
         \<and> sublist ((case current_mode w' of Migration \<Rightarrow> target_disk_text | Cleanup \<Rightarrow> sd_card_text)
                      @ may_be_inconsistent) msg)"
proof -
  have q: "after_queue (on_operation_error error_msg w) = after_queue w @ [ErrorUi error_msg]"
    by (simp add: on_operation_error_def root_after_def)
  have p: "progress_panel (run_task calc (ErrorUi error_msg) w') = PanelError"
    by (cases "current_mode w'")
       (simp_all add: run_task_def error_ui_def set_ui_enabled_def show_custom_info_def
          update_status_def Let_def)
  have r: "run_task calc (ErrorUi error_msg) w' = error_ui error_msg w'"
    by (simp add: run_task_def)
  show ?thesis
    using q p error_ui_dialog [of error_msg w'] unfolding r by blast
qed

lemma sample_calc_b: "sample_calc layout_a 64000000000 default_options = Inr planned_b"
  by (simp add: sample_calc_def plan_defs layout_a_def planned_b_def default_options_def Let_def)

text \<open>
  Claim C3, at its failing input. The mode buttons stay enabled while an operation runs,
  and \<open>error_ui\<close> chooses its texts by the mode the window is in when it runs. In the
  session \<open>failure_after_mode_switch\<close> a migration from the 32 GB card to the 64 GB card
  is running when the user switches to cleanup mode; the engine then reports an error. The
  dialog shown is the one of a failed cleanup: it says that the SD card may be in an
  inconsistent state and nowhere names the target disk.
\<close>

theorem migration_failure_shown_as_cleanup:
  "threads (run_events sample_calc failure_after_mode_switch (initial_window two_cards))
       = [ScanThread,
          EngineThread (MigrationEngine card_a card_b (Some layout_a) (Some planned_b) default_options)]
   \<and> dialogs (run_events sample_calc failure_after_mode_switch (initial_window two_cards))
       = [DlgLayoutComparison Migration,
          DlgOperationFailed cleanup_failed_title
            (cleanup_failed_intro @ io_error @ [10, 10] @ sd_card_text @ may_be_inconsistent
               @ [10] @ restore_from_backup)]
   \<and> \<not> sublist target_disk_text
         (cleanup_failed_intro @ io_error @ [10, 10] @ sd_card_text @ may_be_inconsistent
            @ [10] @ restore_from_backup)"
proof -
  have a: "threads (run_events sample_calc failure_after_mode_switch (initial_window two_cards))
       = [ScanThread,
          EngineThread (MigrationEngine card_a card_b (Some layout_a) (Some planned_b) default_options)]"
    by (simp add: failure_after_mode_switch_def gui_defs sample_defs sample_calc_b Let_def)
  have b: "dialogs (run_events sample_calc failure_after_mode_switch (initial_window two_cards))
       = [DlgLayoutComparison Migration,
          DlgOperationFailed cleanup_failed_title
            (cleanup_failed_intro @ io_error @ [10, 10] @ sd_card_text @ may_be_inconsistent
               @ [10] @ restore_from_backup)]"
    by (simp add: failure_after_mode_switch_def gui_defs sample_defs sample_calc_b Let_def)
  have c: "\<not> sublist target_disk_text
         (cleanup_failed_intro @ io_error @ [10, 10] @ sd_card_text @ may_be_inconsistent
            @ [10] @ restore_from_backup)"
    by (simp add: target_disk_text_def cleanup_failed_intro_def io_error_def ascii_def
        sd_card_text_def may_be_inconsistent_def restore_from_backup_def sublist_code prefix_code)
  from a b c show ?thesis by blast
qed

subsection \<open>The callbacks of a run\<close>

lemma run_stages_shape:
  "\<exists>ps t. run_stages dev ss = ps @ [t] \<and> list_all is_progress ps \<and> is_terminal t"
proof (induction ss)
  case Nil
  have "run_stages dev [] = [] @ [OnComplete]" by simp
  then show ?case by force
next
  case (Cons s ss)
  let ?pre = "map (\<lambda>(percent, message). OnProgress (stage_name s) percent message) (reports (dev s))"
  have pre: "list_all is_progress ?pre"
    by (simp add: list_all_iff split_beta)
  show ?case
  proof (cases "failure (dev s)")
    case (Some error_msg)
    then have "run_stages dev (s # ss) = ?pre @ [OnError error_msg]" by simp
    with pre show ?thesis by force
  next
    case None
    from Cons.IH obtain ps t where
      ih: "run_stages dev ss = ps @ [t]" "list_all is_progress ps" "is_terminal t" by blast
    from None ih(1) have "run_stages dev (s # ss) = (?pre @ ps) @ [t]" by simp
    moreover from pre ih(2) have "list_all is_progress (?pre @ ps)" by simp
    ultimately show ?thesis using ih(3) by blast
  qed
qed

lemma progress_not_terminal: "list_all is_progress ps \<Longrightarrow> filter is_terminal ps = []"
proof (induction ps)
  case Nil
  then show ?case by simp
next
  case (Cons c cs)
  then show ?case by (cases c) simp_all
qed

lemma deliver_schedules: "deliver cb w = w\<lparr>after_queue := after_queue w @ scheduled cb\<rparr>"
  by (cases cb)
     (simp_all add: deliver_def on_operation_progress_def on_operation_complete_def
        on_operation_error_def root_after_def Let_def)

lemma foldl_deliver:
  "foldl (\<lambda>s cb. deliver cb s) w cbs = w\<lparr>after_queue := after_queue w @ concat (map scheduled cbs)\<rparr>"
proof (induction cbs arbitrary: w)
  case Nil
  then show ?case by simp
next
  case (Cons cb cbs)
  have "foldl (\<lambda>s cb. deliver cb s) w (cb # cbs) = foldl (\<lambda>s cb. deliver cb s) (deliver cb w) cbs"
    by simp
  also have "\<dots> = (deliver cb w)\<lparr>after_queue := after_queue (deliver cb w) @ concat (map scheduled cbs)\<rparr>"
    by (rule Cons.IH)
  also have "\<dots> = w\<lparr>after_queue := after_queue w @ concat (map scheduled (cb # cbs))\<rparr>"
    unfolding deliver_schedules by simp
  finally show ?case by simp
qed

text \<open>
  Claim C1. Whatever the stages of a run do to the devices, the callbacks that \<open>run\<close>
  invokes are progress callbacks followed by one terminal callback, \<open>on_complete\<close> or
  \<open>on_error\<close>: the list is not empty, all but its last element are progress callbacks,
  its last element is terminal, and it holds exactly one terminal callback. Through the
  handlers the window registered, the run leaves the window with the matching callbacks
  scheduled in the same order.
\<close>

theorem run_callbacks_in_order:
  "progress_then_one_terminal (run dev e)
   \<and> length (filter is_terminal (run dev e)) = 1
   \<and> engine_thread dev e w = w\<lparr>after_queue := after_queue w @ concat (map scheduled (run dev e))\<rparr>"
proof -
  obtain ps t where
    sh: "run dev e = ps @ [t]" "list_all is_progress ps" "is_terminal t"
    using run_stages_shape [of dev "stages_of e"] unfolding run_def by blast
  have a: "progress_then_one_terminal (run dev e)"
    using sh by (simp add: progress_then_one_terminal_def)
  have b: "length (filter is_terminal (run dev e)) = 1"
    using sh by (simp add: progress_not_terminal)
  have c: "engine_thread dev e w = w\<lparr>after_queue := after_queue w @ concat (map scheduled (run dev e))\<rparr>"
    unfolding engine_thread_def by (rule foldl_deliver)
  from a b c show ?thesis by blast
qed

subsection \<open>A failed scan\<close>

lemma sample_calc_a: "sample_calc layout_a 32000000000 default_options = Inr planned_a"
  by (simp add: sample_calc_def plan_defs layout_a_def planned_a_def default_options_def Let_def)

lemma on_scan_error_frame:
  "on_scan_error e w = w\<lparr>scan_button := NORMAL, scan_button_text := CapSimulate,
                          dialogs := dialogs w @ [DlgScanFailed e], status_label := StScanFailed\<rparr>"
  by (simp add: on_scan_error_def update_status_def show_custom_info_def)

lemma source_picked_fields:
  "source_disk source_picked = Some card_a" "after_queue source_picked = []"
  "scan_button source_picked = NORMAL" "current_mode source_picked = Cleanup"
  "source_layout source_picked = None" "target_layout source_picked = None"
  "source_partition_frame source_picked = None" "target_partition_frame source_picked = None"
  "migrate_button source_picked = DISABLED" "dialogs source_picked = []"
  by (simp_all add: source_picked_def gui_defs sample_defs Let_def)

text \<open>
  Claim C2, as stated, fails. In the session \<open>failed_rescan\<close> the first scan of the
  32 GB card succeeds and the second one raises: afterwards the layout of the first scan
  is still stored and displayed, the planned layout is still displayed, and the action
  button is still enabled.
\<close>

theorem failed_rescan_keeps_layout:
  "source_layout (run_events sample_calc failed_rescan (initial_window two_cards)) = Some layout_a
   \<and> source_partition_frame (run_events sample_calc failed_rescan (initial_window two_cards))
       = Some (layout_a, Some card_a)
   \<and> target_partition_frame (run_events sample_calc failed_rescan (initial_window two_cards))
       = Some (planned_b, Some card_b)
   \<and> migrate_button (run_events sample_calc failed_rescan (initial_window two_cards)) = NORMAL
   \<and> dialogs (run_events sample_calc failed_rescan (initial_window two_cards))
       = [DlgLayoutComparison Migration, DlgScanFailed io_error]"
  by (simp add: failed_rescan_def gui_defs sample_defs sample_calc_b Let_def)

text \<open>
  Claim C2, amended. A scan that fails stores and displays nothing of its own: when the
  scan button is clicked with a source selected (and a target, in migration mode) and no
  callback pending, the scan thread's \<open>scan_disk\<close> raises, and the main loop runs the
  scheduled callback, then the stored source and target layouts, both partition views and
  the state of the action button are what they were before the click, the calculator was
  not called, and the scan failure dialog was shown. So where no layout was stored and the
  button was disabled before the scan, this is still so after it.
\<close>

theorem failed_scan_changes_no_layout:
  assumes "source_disk w = Some sd" and "scan_disk (path sd) = Inl e"
    and "after_queue w = []" and "scan_button w = NORMAL"
    and "current_mode w = Cleanup \<or> target_disk w \<noteq> None"
  shows "source_layout (run_events calc [ClickScan, ScanThreadRuns scan_disk, MainLoop] w) = source_layout w
       \<and> target_layout (run_events calc [ClickScan, ScanThreadRuns scan_disk, MainLoop] w) = target_layout w
       \<and> source_partition_frame (run_events calc [ClickScan, ScanThreadRuns scan_disk, MainLoop] w)
           = source_partition_frame w
       \<and> target_partition_frame (run_events calc [ClickScan, ScanThreadRuns scan_disk, MainLoop] w)
           = target_partition_frame w
       \<and> migrate_button (run_events calc [ClickScan, ScanThreadRuns scan_disk, MainLoop] w) = migrate_button w
       \<and> calc_calls (run_events calc [ClickScan, ScanThreadRuns scan_disk, MainLoop] w) = calc_calls w
       \<and> dialogs (run_events calc [ClickScan, ScanThreadRuns scan_disk, MainLoop] w)
           = dialogs w @ [DlgScanFailed e]
       \<and> after_queue (run_events calc [ClickScan, ScanThreadRuns scan_disk, MainLoop] w) = []"
proof -
  let ?w1 = "fire calc ClickScan w"
  let ?w2 = "fire calc (ScanThreadRuns scan_disk) ?w1"
  let ?w3 = "fire calc MainLoop ?w2"
  have r: "run_events calc [ClickScan, ScanThreadRuns scan_disk, MainLoop] w = ?w3"
    by (simp add: run_events_def)
  have w1: "source_disk ?w1 = Some sd" "after_queue ?w1 = []" "source_layout ?w1 = source_layout w"
    "target_layout ?w1 = target_layout w" "source_partition_frame ?w1 = source_partition_frame w"
    "target_partition_frame ?w1 = target_partition_frame w" "migrate_button ?w1 = migrate_button w"
    "calc_calls ?w1 = calc_calls w" "dialogs ?w1 = dialogs w"
    using assms
    by (auto simp add: fire_def scan_sd_cards_def update_status_def show_custom_info_def Let_def
        split: mode.splits)
  have w2: "?w2 = ?w1\<lparr>after_queue := [OnScanError e]\<rparr>"
    using w1(1,2) assms(2) by (simp add: fire_def scan_thread_def root_after_def)
  have w3: "?w3 = on_scan_error e (?w1\<lparr>after_queue := []\<rparr>)"
    unfolding w2 by (simp add: fire_def main_loop_step_def run_task_def)
  show ?thesis
    unfolding r w3 on_scan_error_frame using w1 by simp
qed

theorem failed_scan_changes_no_layout_witness:
  "source_layout (run_events sample_calc
      [ClickScan, ScanThreadRuns (\<lambda>p. Inl io_error), MainLoop] source_picked) = None
   \<and> source_partition_frame (run_events sample_calc
      [ClickScan, ScanThreadRuns (\<lambda>p. Inl io_error), MainLoop] source_picked) = None
   \<and> target_partition_frame (run_events sample_calc
      [ClickScan, ScanThreadRuns (\<lambda>p. Inl io_error), MainLoop] source_picked) = None
   \<and> migrate_button (run_events sample_calc
      [ClickScan, ScanThreadRuns (\<lambda>p. Inl io_error), MainLoop] source_picked) = DISABLED
   \<and> dialogs (run_events sample_calc
      [ClickScan, ScanThreadRuns (\<lambda>p. Inl io_error), MainLoop] source_picked) = [DlgScanFailed io_error]"
  using failed_scan_changes_no_layout
      [of source_picked card_a "\<lambda>p. Inl io_error" io_error sample_calc]
    source_picked_fields
  by simp

subsection \<open>The layout of a cleanup\<close>


lemma sample_calc_b_all:
  "sample_calc layout_a 64000000000
     \<lparr>migrate_fat32 = True, migrate_linux = True, migrate_android = True,
      migrate_emummc = True, expand_fat32 = True\<rparr> = Inr planned_b"
  using sample_calc_b by (simp add: default_options_def)

text \<open>
  Claim C6, at its failing input. A scan disables the scan button only: the source
  combobox stays live while the scan thread runs. In the session
  \<open>source_changed_during_scan\<close> the 32 GB card is scanned and the user picks the 64 GB
  card before the scan's callback runs. The layout read from the 32 GB card is then shown
  as the layout of the 64 GB card, the calculator is called with it and the capacity of
  the 64 GB card, the result is shown for the 64 GB card, and the cleanup engine is
  started on the 64 GB card with the layouts of the 32 GB card.
\<close>

theorem scan_result_shown_for_other_card:
  "reads_cards (path card_a) = Inr layout_a
   \<and> reads_cards (path card_b) = Inr layout_b
   \<and> layout_a \<noteq> layout_b
   \<and> source_disk (run_events sample_calc source_changed_during_scan (initial_window two_cards))
       = Some card_b
   \<and> source_partition_frame (run_events sample_calc source_changed_during_scan (initial_window two_cards))
       = Some (layout_a, Some card_b)
   \<and> calc_calls (run_events sample_calc source_changed_during_scan (initial_window two_cards))
       = [(layout_a, size_bytes card_b,
           \<lparr>migrate_fat32 = True, migrate_linux = True, migrate_android = True,
            migrate_emummc = True, expand_fat32 = True\<rparr>)]
   \<and> target_partition_frame (run_events sample_calc source_changed_during_scan (initial_window two_cards))
       = Some (planned_b, Some card_b)
   \<and> threads (run_events sample_calc source_changed_during_scan (initial_window two_cards))
       = [ScanThread,
          EngineThread (CleanupEngine card_b (Some layout_a) (Some planned_b)
            \<lparr>remove_linux = False, remove_android = False, remove_emummc = False,
             cleanup_expand_fat32 = True\<rparr>)]"
proof -
  have r: "reads_cards (path card_a) = Inr layout_a" "reads_cards (path card_b) = Inr layout_b"
    by (simp_all add: reads_cards_def card_a_def card_b_def ascii_def)
  have n: "layout_a \<noteq> layout_b"
    by (simp add: layout_a_def layout_b_def)
  have s: "source_disk (run_events sample_calc source_changed_during_scan (initial_window two_cards))
       = Some card_b"
    "source_partition_frame (run_events sample_calc source_changed_during_scan (initial_window two_cards))
       = Some (layout_a, Some card_b)"
    "calc_calls (run_events sample_calc source_changed_during_scan (initial_window two_cards))
       = [(layout_a, size_bytes card_b,
           \<lparr>migrate_fat32 = True, migrate_linux = True, migrate_android = True,
            migrate_emummc = True, expand_fat32 = True\<rparr>)]"
    "target_partition_frame (run_events sample_calc source_changed_during_scan (initial_window two_cards))
       = Some (planned_b, Some card_b)"
    "threads (run_events sample_calc source_changed_during_scan (initial_window two_cards))
       = [ScanThread,
          EngineThread (CleanupEngine card_b (Some layout_a) (Some planned_b)
            \<lparr>remove_linux = False, remove_android = False, remove_emummc = False,
             cleanup_expand_fat32 = True\<rparr>)]"
    by (simp_all add: source_changed_during_scan_def gui_defs sample_defs reads_cards_def
        nothing_ticked_def sample_calc_b_all Let_def)
  from r n s show ?thesis by blast
qed

subsection \<open>What a cleanup removes\<close>











subsection \<open>Which disks a migration may pair\<close>

text \<open>
  The two guards of the target selection, as the handlers have them: the selector rejects
  a target on the path of its source, the window rejects a target that is not larger than
  its source.
\<close>

lemma selector_rejects_source_as_target:
  assumes "target_combobox (disk_selector w) \<noteq> []"
    and "disk_map (disk_selector w) (target_combobox (disk_selector w)) = Some d"
    and "sel_source_disk (disk_selector w) = Some src" and "path d = path src"
  shows "selector_on_target_selected w
           = w\<lparr>dialogs := dialogs w @ [DlgSameAsSource],
               disk_selector := (disk_selector w)\<lparr>target_combobox := []\<rparr>\<rparr>"
  using assms by (simp add: selector_on_target_selected_def show_custom_info_def Let_def)

lemma window_rejects_target_not_larger:
  assumes "source_disk w = Some src" and "size_bytes d \<le> size_bytes src"
  shows "target_disk (on_target_selected d w) = None"
    and "sel_target_disk (disk_selector (on_target_selected d w)) = None"
    and "target_combobox (disk_selector (on_target_selected d w)) = []"
    and "dialogs (on_target_selected d w) = dialogs w @ [DlgInvalidTarget d src]"
    and "migrate_button (on_target_selected d w) = DISABLED"
  using assms by (simp_all add: on_target_selected_def show_custom_info_def clear_target_def Let_def)

text \<open>
  Claim C4, at its failing input. The guard runs only when a target is picked. In the
  session \<open>source_after_target\<close> the user picks the 32 GB card as target while no source
  is selected, then the 64 GB card as source: nothing is rejected, the layout is planned
  and a migration is started from the larger card to the smaller one.
\<close>

theorem target_first_allows_smaller_target:
  "started_runs (run_events sample_calc source_after_target (initial_window two_cards))
       = [(card_b, card_a)]
   \<and> size_bytes card_a \<le> size_bytes card_b
   \<and> dialogs (run_events sample_calc source_after_target (initial_window two_cards))
       = [DlgLayoutComparison Migration]"
  by (simp add: source_after_target_def started_runs_def gui_defs sample_defs sample_calc_a Let_def)

text \<open>
  Claim C9, at its failing input. In the session \<open>same_card\<close> the user picks the 32 GB
  card as target while no source is selected, then the same card as source: nothing is
  rejected and a migration is started whose source and target are the same device.
\<close>

theorem target_first_allows_same_device:
  "started_runs (run_events sample_calc same_card (initial_window two_cards))
       = [(card_a, card_a)]
   \<and> dialogs (run_events sample_calc same_card (initial_window two_cards))
       = [DlgLayoutComparison Migration]"
  by (simp add: same_card_def started_runs_def gui_defs sample_defs sample_calc_a Let_def)

subsection \<open>When the action button is enabled\<close>

text \<open>
  The events that invalidate a layout disable the button, and a layout calculation that
  enables it leaves both layouts stored.
\<close>

lemma invalidating_events_disable_button:
  "current_mode w \<noteq> m \<Longrightarrow> migrate_button (switch_mode m w) = DISABLED"
  "migrate_button (on_source_selected d w) = DISABLED"
  "migrate_button (on_target_selected d w) = DISABLED"
  by (auto simp add: switch_mode_def on_source_selected_def on_target_selected_def
      update_status_def show_custom_info_def Let_def split: mode.splits option.splits)

lemma calculation_enables_with_layouts:
  assumes "migrate_button w = DISABLED" and "migrate_button (calculate_layout calc w) = NORMAL"
  shows "source_layout (calculate_layout calc w) \<noteq> None \<and> target_layout (calculate_layout calc w) \<noteq> None"
  using assms
  by (auto simp add: calculate_layout_def calculate_layout_body_def call_calculator_def
      show_layout_comparison_def update_status_def show_custom_info_def Let_def
      split: option.splits sum.splits mode.splits if_splits)

text \<open>
  Claim C10, at its failing input. The mode buttons stay enabled while an operation runs.
  In the session \<open>mode_switch_during_run\<close> the user starts a migration and switches to
  cleanup mode while it runs, which clears both layouts; when the engine then reports
  completion, \<open>_set_ui_enabled(True)\<close> enables the action button although no layout is
  stored.
\<close>

theorem button_enabled_without_layouts:
  "migrate_button (run_events sample_calc mode_switch_during_run (initial_window two_cards)) = NORMAL
   \<and> source_layout (run_events sample_calc mode_switch_during_run (initial_window two_cards)) = None
   \<and> target_layout (run_events sample_calc mode_switch_during_run (initial_window two_cards)) = None"
  by (simp add: mode_switch_during_run_def gui_defs sample_defs sample_calc_b Let_def)

end
